theory Spec2Isabelle
  imports Complex_Main
begin

section \<open>Python values used by ser_cmd.py\<close>

text \<open>
  A Python \<open>bytes\<close> object is a list of 8-bit characters, a Python \<open>str\<close> is a list
  of Unicode code points. Exceptions are values; a computation that may raise returns
  \<open>py_exc + 'a\<close> with \<open>Inl\<close> for the exception.
\<close>

type_synonym bytes = "char list"
type_synonym pystr = "nat list"

definition ascii :: "string \<Rightarrow> pystr" where
  "ascii cs = map of_char cs"

datatype pyval = Str pystr | Bytes bytes | Int int | NoneVal

datatype py_exc =
    TypeError string
  | PlainException string
  | UnicodeEncodeError
  | UnicodeDecodeError
  | SerialException string
  | OSError string
  | ValueError
  | IndexError
  | EOFError
  | KeyboardInterrupt

type_synonym 'a res = "py_exc + 'a"

text \<open>\<open>except Exception\<close> catches every exception of the model but \<open>KeyboardInterrupt\<close>.\<close>

fun is_Exception :: "py_exc \<Rightarrow> bool" where
  "is_Exception KeyboardInterrupt = False"
| "is_Exception e = True"

text \<open>\<open>s.startswith(p)\<close> and the substring test \<open>needle in hay\<close>.\<close>

fun startswith :: "'a list \<Rightarrow> 'a list \<Rightarrow> bool" where
  "startswith xs [] = True"
| "startswith [] (p # ps) = False"
| "startswith (x # xs) (p # ps) = (x = p \<and> startswith xs ps)"

fun py_in :: "'a list \<Rightarrow> 'a list \<Rightarrow> bool" where
  "py_in needle [] = (needle = [])"
| "py_in needle (h # hs) = (startswith (h # hs) needle \<or> py_in needle hs)"

subsection \<open>The UTF-8 codec of \<open>str.encode()\<close> and \<open>bytes.decode('utf-8')\<close>\<close>

text \<open>
  Strict UTF-8: shortest form only, no surrogates, nothing above U+10FFFF.
  \<open>None\<close> stands for \<open>UnicodeEncodeError\<close> resp. \<open>UnicodeDecodeError\<close>.
\<close>

definition cont :: "nat \<Rightarrow> bool" where
  "cont b = (0x80 \<le> b \<and> b \<le> 0xBF)"

fun utf8_enc1 :: "nat \<Rightarrow> nat list option" where
  "utf8_enc1 c =
     (if c < 0x80 then Some [c]
      else if c < 0x800 then Some [0xC0 + c div 0x40, 0x80 + c mod 0x40]
      else if c < 0x10000 then
        (if 0xD800 \<le> c \<and> c \<le> 0xDFFF then None
         else Some [0xE0 + c div 0x1000, 0x80 + (c div 0x40) mod 0x40, 0x80 + c mod 0x40])
      else if c < 0x110000 then
        Some [0xF0 + c div 0x40000, 0x80 + (c div 0x1000) mod 0x40,
              0x80 + (c div 0x40) mod 0x40, 0x80 + c mod 0x40]
      else None)"

fun utf8_enc :: "pystr \<Rightarrow> nat list option" where
  "utf8_enc [] = Some []"
| "utf8_enc (c # cs) =
     (case utf8_enc1 c of
        None \<Rightarrow> None
      | Some bs \<Rightarrow> (case utf8_enc cs of None \<Rightarrow> None | Some rest \<Rightarrow> Some (bs @ rest)))"

definition utf8_encode :: "pystr \<Rightarrow> bytes option" where
  "utf8_encode s = map_option (map char_of) (utf8_enc s)"

fun utf8_dec :: "nat list \<Rightarrow> pystr option" where
  "utf8_dec [] = Some []"
| "utf8_dec (b0 # bs) =
     (if b0 < 0x80 then map_option ((#) b0) (utf8_dec bs)
      else if 0xC2 \<le> b0 \<and> b0 \<le> 0xDF then
        (case bs of
           b1 # bs1 \<Rightarrow>
             if cont b1
             then map_option ((#) ((b0 - 0xC0) * 0x40 + (b1 - 0x80))) (utf8_dec bs1)
             else None
         | _ \<Rightarrow> None)
      else if 0xE0 \<le> b0 \<and> b0 \<le> 0xEF then
        (case bs of
           b1 # b2 # bs2 \<Rightarrow>
             if (if b0 = 0xE0 then 0xA0 else 0x80) \<le> b1
                \<and> b1 \<le> (if b0 = 0xED then 0x9F else 0xBF) \<and> cont b2
             then map_option
                    ((#) ((b0 - 0xE0) * 0x1000 + (b1 - 0x80) * 0x40 + (b2 - 0x80)))
                    (utf8_dec bs2)
             else None
         | _ \<Rightarrow> None)
      else if 0xF0 \<le> b0 \<and> b0 \<le> 0xF4 then
        (case bs of
           b1 # b2 # b3 # bs3 \<Rightarrow>
             if (if b0 = 0xF0 then 0x90 else 0x80) \<le> b1
                \<and> b1 \<le> (if b0 = 0xF4 then 0x8F else 0xBF) \<and> cont b2 \<and> cont b3
             then map_option
                    ((#) ((b0 - 0xF0) * 0x40000 + (b1 - 0x80) * 0x1000
                          + (b2 - 0x80) * 0x40 + (b3 - 0x80)))
                    (utf8_dec bs3)
             else None
         | _ \<Rightarrow> None)
      else None)"

definition utf8_decode :: "bytes \<Rightarrow> pystr option" where
  "utf8_decode bs = utf8_dec (map of_char bs)"

section \<open>The environment: pyserial, time, sys, glob\<close>

text \<open>
  The program talks to the outside through \<open>serial.Serial\<close>, \<open>time.time\<close>,
  \<open>time.sleep\<close>, \<open>sys.platform\<close> and \<open>glob.glob\<close>. Their behaviour is a parameter:
  a record of functions over an arbitrary world \<open>'w\<close>. A connection is a handle (a
  number) handed out by \<open>ser_open\<close>. An operation of pyserial either succeeds or fails
  with an \<open>io_error\<close>; the world may change in both cases. The built-in \<open>int\<close> on
  strings is a parameter as well (\<open>None\<close> is its \<open>ValueError\<close>).
\<close>

datatype io_error = SerialError string | OsError string

fun raise_io :: "io_error \<Rightarrow> py_exc" where
  "raise_io (SerialError m) = SerialException m"
| "raise_io (OsError m) = OSError m"

record settings =
  baudrate :: nat
  timeout :: "real option"
  rtscts :: bool

definition default_settings :: settings where
  "default_settings = \<lparr>baudrate = 9600, timeout = None, rtscts = False\<rparr>"

definition bap_settings :: settings where
  "bap_settings = \<lparr>baudrate = 115200, timeout = Some (1 / 100), rtscts = True\<rparr>"

record 'w driver =
  ser_open :: "pystr \<Rightarrow> settings \<Rightarrow> 'w \<Rightarrow> (io_error + nat) \<times> 'w"
  ser_close :: "nat \<Rightarrow> 'w \<Rightarrow> (io_error + unit) \<times> 'w"
  ser_inWaiting :: "nat \<Rightarrow> 'w \<Rightarrow> (io_error + nat) \<times> 'w"
  ser_read :: "nat \<Rightarrow> nat \<Rightarrow> 'w \<Rightarrow> (io_error + bytes) \<times> 'w"
  ser_write :: "nat \<Rightarrow> bytes \<Rightarrow> 'w \<Rightarrow> (io_error + unit) \<times> 'w"
  time_sleep :: "real \<Rightarrow> 'w \<Rightarrow> 'w"
  time_time :: "'w \<Rightarrow> real \<times> 'w"
  sys_platform :: pystr
  glob_glob :: "pystr \<Rightarrow> 'w \<Rightarrow> pystr list"
  int_of_str :: "pystr \<Rightarrow> int option"

text \<open>
  The state of the running program: the world, the terminal, and two histories kept
  for the properties below: the calls made to the \<open>logging\<close> module, and the events
  on the connections and the clock. \<open>Opened\<close> and \<open>Read\<close> record a call that succeeded,
  with its result; \<open>Closed\<close> and \<open>Wrote\<close> record that \<open>close\<close> resp. \<open>write\<close> was
  called; \<open>Clock\<close> records a reading of \<open>time.time()\<close>.
\<close>

datatype event = Opened nat pystr | Closed nat | Wrote nat bytes | Read nat bytes | Clock real

datatype level = DEBUG | INFO | WARNING | ERROR | CRITICAL

datatype log_arg = Msg string | Exc py_exc | Text pystr

datatype log_call = SetLevel string level | Log string level log_arg

record 'w state =
  world :: 'w
  trace :: "event list"
  stdin :: "pystr list"
  stdout :: "pystr list"
  logcalls :: "log_call list"

definition lift_io :: "('w \<Rightarrow> (io_error + 'a) \<times> 'w) \<Rightarrow> 'w state \<Rightarrow> 'a res \<times> 'w state" where
  "lift_io f s =
     (case f (world s) of
        (Inl e, w) \<Rightarrow> (Inl (raise_io e), s\<lparr>world := w\<rparr>)
      | (Inr a, w) \<Rightarrow> (Inr a, s\<lparr>world := w\<rparr>))"

definition com_inWaiting :: "'w driver \<Rightarrow> nat \<Rightarrow> 'w state \<Rightarrow> nat res \<times> 'w state" where
  "com_inWaiting d com s = lift_io (ser_inWaiting d com) s"

definition com_read :: "'w driver \<Rightarrow> nat \<Rightarrow> nat \<Rightarrow> 'w state \<Rightarrow> bytes res \<times> 'w state" where
  "com_read d com n s =
     (case lift_io (ser_read d com n) s of
        (Inl e, s1) \<Rightarrow> (Inl e, s1)
      | (Inr bs, s1) \<Rightarrow> (Inr bs, s1\<lparr>trace := trace s1 @ [Read com bs]\<rparr>))"

definition com_write :: "'w driver \<Rightarrow> nat \<Rightarrow> bytes \<Rightarrow> 'w state \<Rightarrow> unit res \<times> 'w state" where
  "com_write d com bs s =
     lift_io (ser_write d com bs) (s\<lparr>trace := trace s @ [Wrote com bs]\<rparr>)"

definition com_close :: "'w driver \<Rightarrow> nat \<Rightarrow> 'w state \<Rightarrow> unit res \<times> 'w state" where
  "com_close d com s =
     lift_io (ser_close d com) (s\<lparr>trace := trace s @ [Closed com]\<rparr>)"

definition serial_Serial ::
    "'w driver \<Rightarrow> pystr \<Rightarrow> settings \<Rightarrow> 'w state \<Rightarrow> nat res \<times> 'w state" where
  "serial_Serial d port cfg s =
     (case lift_io (ser_open d port cfg) s of
        (Inl e, s1) \<Rightarrow> (Inl e, s1)
      | (Inr com, s1) \<Rightarrow> (Inr com, s1\<lparr>trace := trace s1 @ [Opened com port]\<rparr>))"

definition sleep :: "'w driver \<Rightarrow> real \<Rightarrow> 'w state \<Rightarrow> 'w state" where
  "sleep d t s = s\<lparr>world := time_sleep d t (world s)\<rparr>"

definition now :: "'w driver \<Rightarrow> 'w state \<Rightarrow> real \<times> 'w state" where
  "now d s =
     (case time_time d (world s) of
        (t, w) \<Rightarrow> (t, s\<lparr>world := w, trace := trace s @ [Clock t]\<rparr>))"

definition log_call :: "log_call \<Rightarrow> 'w state \<Rightarrow> 'w state" where
  "log_call c s = s\<lparr>logcalls := logcalls s @ [c]\<rparr>"

definition print :: "pystr \<Rightarrow> 'w state \<Rightarrow> 'w state" where
  "print line s = s\<lparr>stdout := stdout s @ [line]\<rparr>"

text \<open>
  What \<open>logging\<close> does with the calls: a call is dropped when its level is below the level
  of its logger, which is the level last set on that logger with \<open>setLevel\<close>, or the level
  of the root logger when none has been set. \<open>reported\<close> is the list of the records that
  are not dropped, for a given level of the root logger.
\<close>

fun level_no :: "level \<Rightarrow> nat" where
  "level_no DEBUG = 10"
| "level_no INFO = 20"
| "level_no WARNING = 30"
| "level_no ERROR = 40"
| "level_no CRITICAL = 50"

fun levels_after :: "(string \<Rightarrow> level option) \<Rightarrow> log_call list \<Rightarrow> string \<Rightarrow> level option" where
  "levels_after lv [] = lv"
| "levels_after lv (SetLevel name l # cs) = levels_after (lv(name \<mapsto> l)) cs"
| "levels_after lv (Log name l a # cs) = levels_after lv cs"

fun emitted ::
    "level \<Rightarrow> (string \<Rightarrow> level option) \<Rightarrow> log_call list \<Rightarrow> (string \<times> level \<times> log_arg) list" where
  "emitted base lv [] = []"
| "emitted base lv (SetLevel name l # cs) = emitted base (lv(name \<mapsto> l)) cs"
| "emitted base lv (Log name l a # cs) =
     (if level_no (case lv name of None \<Rightarrow> base | Some own \<Rightarrow> own) \<le> level_no l
      then (name, l, a) # emitted base lv cs
      else emitted base lv cs)"

definition reported :: "level \<Rightarrow> log_call list \<Rightarrow> (string \<times> level \<times> log_arg) list" where
  "reported base cs = emitted base (\<lambda>name. None) cs"

section \<open>request_bap and send\<close>

text \<open>
  The loop \<open>while com.inWaiting(): buf += com.read(com.inWaiting()); time.sleep(0.01)\<close>
  occurs twice in \<open>request_bap\<close>: before the write, where the bytes read are thrown
  away, and inside the polling loop, where they are appended to \<open>r\<close>. It need not end
  (a device that never stops sending keeps it running), so not returning is \<open>None\<close>.
\<close>

partial_function (option) read_waiting ::
    "'w driver \<Rightarrow> nat \<Rightarrow> bytes \<Rightarrow> 'w state \<Rightarrow> (bytes res \<times> 'w state) option" where
  "read_waiting d com buf s =
     (case com_inWaiting d com s of
        (Inl e, s1) \<Rightarrow> Some (Inl e, s1)
      | (Inr n, s1) \<Rightarrow>
          if n = 0 then Some (Inr buf, s1)
          else
            (case com_inWaiting d com s1 of
               (Inl e, s2) \<Rightarrow> Some (Inl e, s2)
             | (Inr m, s2) \<Rightarrow>
                 (case com_read d com m s2 of
                    (Inl e, s3) \<Rightarrow> Some (Inl e, s3)
                  | (Inr bs, s3) \<Rightarrow> read_waiting d com (buf @ bs) (sleep d (1 / 100) s3))))"

declare read_waiting.simps [code]

definition timeout_exc :: py_exc where
  "timeout_exc = PlainException ''timeout before end of message.''"

definition end_of_message :: bytes where
  "end_of_message = [CHR 0x0A, CHR 0x0A]"

text \<open>
  The \<open>while True\<close> loop of \<open>request_bap\<close>, with \<open>t0\<close> the clock reading taken before
  it and \<open>r\<close> the bytes accumulated so far.
\<close>

partial_function (option) poll ::
    "'w driver \<Rightarrow> nat \<Rightarrow> real \<Rightarrow> bytes \<Rightarrow> 'w state \<Rightarrow> (bytes res \<times> 'w state) option" where
  "poll d com t0 r s =
     (case read_waiting d com r s of
        None \<Rightarrow> None
      | Some (Inl e, s1) \<Rightarrow> Some (Inl e, s1)
      | Some (Inr r1, s1) \<Rightarrow>
          if py_in end_of_message r1 then Some (Inr r1, s1)
          else
            (case now d s1 of
               (t, s2) \<Rightarrow>
                 if t - t0 > 2 then Some (Inl timeout_exc, s2)
                 else poll d com t0 r1 (sleep d (1 / 100) s2)))"

declare poll.simps [code]

text \<open>The read phase: \<open>r = b''\<close>, \<open>t0 = time.time()\<close>, then the polling loop.\<close>

definition read_phase ::
    "'w driver \<Rightarrow> nat \<Rightarrow> 'w state \<Rightarrow> (bytes res \<times> 'w state) option" where
  "read_phase d com s = (case now d s of (t0, s1) \<Rightarrow> poll d com t0 [] s1)"

definition request_bap ::
    "'w driver \<Rightarrow> nat \<Rightarrow> pyval \<Rightarrow> 'w state \<Rightarrow> (pystr res \<times> 'w state) option" where
  "request_bap d com cmd s =
     (case cmd of
        Str c \<Rightarrow>
          (case read_waiting d com [] s of
             None \<Rightarrow> None
           | Some (Inl e, s1) \<Rightarrow> Some (Inl e, s1)
           | Some (Inr _, s1) \<Rightarrow>
               (case utf8_encode (c @ [10]) of
                  None \<Rightarrow> Some (Inl UnicodeEncodeError, s1)
                | Some bs \<Rightarrow>
                    (case com_write d com bs s1 of
                       (Inl e, s2) \<Rightarrow> Some (Inl e, s2)
                     | (Inr _, s2) \<Rightarrow>
                         (case read_phase d com s2 of
                            None \<Rightarrow> None
                          | Some (Inl e, s3) \<Rightarrow> Some (Inl e, s3)
                          | Some (Inr r, s3) \<Rightarrow>
                              (case utf8_decode r of
                                 None \<Rightarrow> Some (Inl UnicodeDecodeError, s3)
                               | Some text \<Rightarrow> Some (Inr text, s3))))))
      | _ \<Rightarrow> Some (Inl (TypeError ''cmd must be str''), s))"

text \<open>
  What the clause \<open>except Exception as e\<close> of \<open>send\<close> does with an exception raised in
  the \<open>try\<close> block: an \<open>Exception\<close> is logged on \<open>logger\<close>, the logger \<open>ser_cmd\<close> that the
  main program has bound before its first call of \<open>send\<close>, and answered with the text
  \<open>error\<close>; an exception that is not an \<open>Exception\<close> is not caught and leaves \<open>send\<close>.
\<close>

definition send_handler :: "py_exc \<Rightarrow> 'w state \<Rightarrow> pystr res \<times> 'w state" where
  "send_handler e s =
     (if is_Exception e
      then (Inr (ascii ''error''), log_call (Log ''ser_cmd'' ERROR (Exc e)) s)
      else (Inl e, s))"

definition send ::
    "'w driver \<Rightarrow> nat \<Rightarrow> pyval \<Rightarrow> 'w state \<Rightarrow> (pystr res \<times> 'w state) option" where
  "send d com cmd s =
     (case request_bap d com cmd s of
        None \<Rightarrow> None
      | Some (Inr text, s1) \<Rightarrow> Some (Inr text, s1)
      | Some (Inl e, s1) \<Rightarrow> Some (send_handler e s1))"

section \<open>SerialPorts\<close>

function str_of_nat :: "nat \<Rightarrow> string" where
  "str_of_nat n =
     (if n < 10 then [char_of (48 + n)]
      else str_of_nat (n div 10) @ [char_of (48 + n mod 10)])"
  by pat_completeness auto
termination
  by (relation "measure id") auto

declare str_of_nat.simps [simp del]

record serial_ports =
  self_ports :: "pystr list"

definition init_SerialPorts :: serial_ports where
  "init_SerialPorts = \<lparr>self_ports = []\<rparr>"

fun is_SerialException :: "py_exc \<Rightarrow> bool" where
  "is_SerialException (SerialException m) = True"
| "is_SerialException e = False"

text \<open>
  The loop \<open>for port in ports\<close> of \<open>scan_ports\<close>: open with pyserial's defaults,
  close, keep the port; \<open>except serial.SerialException: pass\<close> drops the port, any
  other exception leaves the loop and the function.
\<close>

fun try_ports ::
    "'w driver \<Rightarrow> pystr list \<Rightarrow> pystr list \<Rightarrow> 'w state \<Rightarrow> pystr list res \<times> 'w state" where
  "try_ports d [] available s = (Inr available, s)"
| "try_ports d (port # ports) available s =
     (case serial_Serial d port default_settings s of
        (Inl e, s1) \<Rightarrow>
          if is_SerialException e then try_ports d ports available s1 else (Inl e, s1)
      | (Inr com, s1) \<Rightarrow>
          (case com_close d com s1 of
             (Inl e, s2) \<Rightarrow>
               if is_SerialException e then try_ports d ports available s2 else (Inl e, s2)
           | (Inr u, s2) \<Rightarrow> try_ports d ports (available @ [port]) s2))"

definition scan_candidates ::
    "'w driver \<Rightarrow> pystr list \<Rightarrow> serial_ports \<Rightarrow> 'w state
      \<Rightarrow> (unit res \<times> serial_ports) \<times> 'w state" where
  "scan_candidates d ports self s =
     (case try_ports d ports [] (log_call (Log ''scan_ports'' INFO (Msg ''Scanning ports...'')) s) of
        (Inl e, s1) \<Rightarrow> ((Inl e, self), s1)
      | (Inr available, s1) \<Rightarrow>
          ((Inr (), self\<lparr>self_ports := available\<rparr>),
           fold (\<lambda>port. log_call (Log ''scan_ports'' INFO (Text port))) available
             (log_call (Log ''scan_ports'' INFO (Msg ''Available ports:'')) s1)))"

definition scan_ports ::
    "'w driver \<Rightarrow> serial_ports \<Rightarrow> 'w state \<Rightarrow> (unit res \<times> serial_ports) \<times> 'w state" where
  "scan_ports d self s =
     (let s1 = log_call (SetLevel ''scan_ports'' CRITICAL) s;
          s2 = log_call (Log ''scan_ports'' INFO (Msg ''Starting...'')) s1
      in if startswith (sys_platform d) (ascii ''win'')
         then scan_candidates d
                (map (\<lambda>i. ascii ''COM'' @ ascii (str_of_nat (i + 1))) [0 ..< 256]) self s2
         else if startswith (sys_platform d) (ascii ''linux'')
         then scan_candidates d (glob_glob d (ascii ''/dev/tty[A-Za-z]*'') (world s2)) self s2
         else ((Inr (), self), log_call (Log ''scan_ports'' ERROR (Msg ''Unsupported OS'')) s2))"

definition get_ports ::
    "'w driver \<Rightarrow> serial_ports \<Rightarrow> 'w state \<Rightarrow> (pystr list res \<times> serial_ports) \<times> 'w state" where
  "get_ports d self s =
     (case scan_ports d self s of
        ((Inl e, self1), s1) \<Rightarrow> ((Inl e, self1), s1)
      | ((Inr u, self1), s1) \<Rightarrow> ((Inr (self_ports self1), self1), s1))"




section \<open>The port selection of the main program\<close>

definition input_line :: "pystr \<Rightarrow> 'w state \<Rightarrow> pystr res \<times> 'w state" where
  "input_line prompt s =
     (case stdin s of
        [] \<Rightarrow> (Inl EOFError, print prompt s)
      | line # rest \<Rightarrow> (Inr line, (print prompt s)\<lparr>stdin := rest\<rparr>))"

definition py_index :: "'a list \<Rightarrow> int \<Rightarrow> 'a option" where
  "py_index xs i =
     (if 0 \<le> i \<and> i < int (length xs) then Some (xs ! nat i)
      else if i < 0 \<and> - int (length xs) \<le> i then Some (xs ! nat (int (length xs) + i))
      else None)"

text \<open>
  The assignment \<open>com = serial.Serial(...)\<close> rebinds \<open>com\<close> once the port is open. CPython
  then frees the \<open>Serial\<close> object that \<open>com\<close> held, if it held one, and the finaliser of
  \<open>io.RawIOBase\<close> calls its \<open>close()\<close>; what \<open>close()\<close> raises there is discarded.
\<close>

definition finalise :: "'w driver \<Rightarrow> nat option \<Rightarrow> 'w state \<Rightarrow> 'w state" where
  "finalise d held s = (case held of None \<Rightarrow> s | Some old \<Rightarrow> snd (com_close d old s))"

text \<open>
  The loop \<open>while True\<close> that asks the operator for a port number, opens that port and
  sends \<open>version\<close>, with \<open>held\<close> the connection that \<open>com\<close> holds when a turn begins
  (\<open>None\<close> on entry). It returns the connection \<open>com\<close> it ends with.
\<close>

partial_function (option) choose_port ::
    "'w driver \<Rightarrow> pystr list \<Rightarrow> nat option \<Rightarrow> 'w state \<Rightarrow> (nat res \<times> 'w state) option" where
  "choose_port d ports held s =
     (case input_line (ascii ''Enter port number to use: '') s of
        (Inl e, s1) \<Rightarrow> Some (Inl e, s1)
      | (Inr port_num, s1) \<Rightarrow>
          (case int_of_str d port_num of
             None \<Rightarrow> Some (Inl ValueError, s1)
           | Some i \<Rightarrow>
               (case py_index ports i of
                  None \<Rightarrow> Some (Inl IndexError, s1)
                | Some port \<Rightarrow>
                    (case serial_Serial d port bap_settings s1 of
                       (Inl e, s2) \<Rightarrow> Some (Inl e, s2)
                     | (Inr com, s2) \<Rightarrow>
                         (case send d com (Str (ascii ''version'')) (finalise d held s2) of
                            None \<Rightarrow> None
                          | Some (Inl e, s3) \<Rightarrow> Some (Inl e, s3)
                          | Some (Inr resp, s3) \<Rightarrow>
                              if py_in (ascii ''error'') resp
                              then choose_port d ports (Some com)
                                     (print (ascii ''The port seems not to be connected to the unit. Try another port.'') s3)
                              else if py_in (ascii ''200 OK'') resp then Some (Inr com, s3)
                              else Some (Inr com, s3))))))"

declare choose_port.simps [code]

text \<open>
  Lines 158 to 182 of the main program, entered with \<open>com = None\<close> and the list found
  by \<open>get_ports\<close>: the listing, the loop when there is more than one port, \<open>ports[0]\<close>
  otherwise, and the opening of \<open>port\<close> when \<open>com\<close> is still unset.
\<close>

definition port_line :: "pystr list \<Rightarrow> nat \<Rightarrow> pystr" where
  "port_line ports n = ascii ''Port '' @ ascii (str_of_nat n) @ ascii '': '' @ ports ! n"

definition info_line :: "pystr list \<Rightarrow> nat \<Rightarrow> log_call" where
  "info_line ports i = Log ''ser_cmd'' INFO (Text (ascii (str_of_nat i) @ ascii '': '' @ ports ! i))"

definition select_port ::
    "'w driver \<Rightarrow> pystr list \<Rightarrow> 'w state \<Rightarrow> (nat res \<times> 'w state) option" where
  "select_port d ports s =
     (let s1 = fold (\<lambda>n. print (port_line ports n)) [0 ..< length ports]
                 (print (ascii ''Available port(s):'') s)
      in if length ports > 1
         then choose_port d ports None
                (fold (\<lambda>i. log_call (info_line ports i)) [0 ..< length ports]
                   (log_call (Log ''ser_cmd'' INFO (Msg ''Which port? Give number.'')) s1))
         else (case py_index ports 0 of
                 None \<Rightarrow> Some (Inl IndexError, s1)
               | Some port \<Rightarrow> Some (serial_Serial d port bap_settings s1)))"

section \<open>Reading the event history\<close>

text \<open>
  \<open>reads\<close> is the concatenation of the bytes returned by \<open>read\<close>, \<open>clocks\<close> the list
  of clock readings. For the events of one call of \<open>request_bap\<close>, \<open>received\<close> is what
  was read after the write, which is the value of \<open>r\<close>, and \<open>readings\<close> the clock
  readings after the write: \<open>t0\<close> first, then one for each deadline check.
\<close>

fun is_transport :: "py_exc \<Rightarrow> bool" where
  "is_transport (SerialException m) = True"
| "is_transport (OSError m) = True"
| "is_transport e = False"

fun is_Closed :: "event \<Rightarrow> bool" where
  "is_Closed (Closed com) = True"
| "is_Closed e = False"

fun is_Wrote :: "event \<Rightarrow> bool" where
  "is_Wrote (Wrote com bs) = True"
| "is_Wrote e = False"

fun reads :: "event list \<Rightarrow> bytes" where
  "reads [] = []"
| "reads (Read com bs # es) = bs @ reads es"
| "reads (e # es) = reads es"

fun clocks :: "event list \<Rightarrow> real list" where
  "clocks [] = []"
| "clocks (Clock t # es) = t # clocks es"
| "clocks (e # es) = clocks es"

definition new_events :: "'w state \<Rightarrow> 'w state \<Rightarrow> event list" where
  "new_events s s' = drop (length (trace s)) (trace s')"

definition after_write :: "event list \<Rightarrow> event list" where
  "after_write tr = tl (dropWhile (\<lambda>e. \<not> is_Wrote e) tr)"

definition received :: "event list \<Rightarrow> bytes" where
  "received tr = reads (after_write tr)"

definition readings :: "event list \<Rightarrow> real list" where
  "readings tr = clocks (after_write tr)"

text \<open>
  A list of readings is overdue when its last one is more than 2 seconds after its
  first one, and in budget when none is.
\<close>

definition overdue :: "real list \<Rightarrow> bool" where
  "overdue ts = (case ts of [] \<Rightarrow> False | t0 # rest \<Rightarrow> rest \<noteq> [] \<and> 2 < last rest - t0)"

definition in_budget :: "real list \<Rightarrow> bool" where
  "in_budget ts = (case ts of [] \<Rightarrow> True | t0 # rest \<Rightarrow> list_all (\<lambda>t. t - t0 \<le> 2) rest)"

text \<open>The connections open after a history, and the largest number open at once.\<close>

fun open_after :: "nat list \<Rightarrow> event list \<Rightarrow> nat list" where
  "open_after coms [] = coms"
| "open_after coms (Opened com port # es) = open_after (coms @ [com]) es"
| "open_after coms (Closed com # es) = open_after (remove1 com coms) es"
| "open_after coms (e # es) = open_after coms es"

fun peak_open :: "nat list \<Rightarrow> event list \<Rightarrow> nat" where
  "peak_open coms [] = length coms"
| "peak_open coms (Opened com port # es) = max (length coms) (peak_open (coms @ [com]) es)"
| "peak_open coms (Closed com # es) = max (length coms) (peak_open (remove1 com coms) es)"
| "peak_open coms (e # es) = peak_open coms es"

text \<open>The connections that \<open>com\<close> holds: none, or one.\<close>

definition holding :: "nat option \<Rightarrow> nat list" where
  "holding held = (case held of None \<Rightarrow> [] | Some com \<Rightarrow> [com])"

text \<open>
  An exception is an I/O failure of the connection \<open>com\<close> when it is what \<open>inWaiting\<close>,
  \<open>read\<close> or \<open>write\<close> of the driver raises on \<open>com\<close> in some world.
\<close>

definition io_failure :: "'w driver \<Rightarrow> nat \<Rightarrow> py_exc \<Rightarrow> bool" where
  "io_failure d com e =
     (\<exists>x w. e = raise_io x \<and>
        (fst (ser_inWaiting d com w) = Inl x
         \<or> (\<exists>n. fst (ser_read d com n w) = Inl x)
         \<or> (\<exists>bs. fst (ser_write d com bs w) = Inl x)))"

text \<open>
  Events that leave the set of open connections alone (\<open>plain\<close>), and those of a
  polling loop (\<open>calm\<close>).
\<close>

fun calm :: "event \<Rightarrow> bool" where
  "calm (Read com bs) = True"
| "calm (Clock t) = True"
| "calm e = False"

fun plain :: "event \<Rightarrow> bool" where
  "plain (Opened com port) = False"
| "plain (Closed com) = False"
| "plain e = True"

text \<open>
  What a call \<open>request_bap(com, c)\<close> with a string \<open>c\<close> can end with, read off the
  events \<open>tr\<close> of the call: the decoded text, when what was read after the write
  contains the end-of-message marker and decodes; the timeout, when it does not contain
  the marker and the last clock reading is overdue; a decoding error, when it contains
  the marker and does not decode; an encoding error before anything is written; or the
  failure of an operation on the connection.
\<close>

definition bap_outcome ::
    "'w driver \<Rightarrow> pystr \<Rightarrow> nat \<Rightarrow> event list \<Rightarrow> pystr res \<Rightarrow> bool" where
  "bap_outcome d c com tr res =
     (case res of
        Inr text \<Rightarrow>
          (\<exists>bs. utf8_encode (c @ [10]) = Some bs \<and> Wrote com bs \<in> set tr)
          \<and> py_in end_of_message (received tr) \<and> utf8_decode (received tr) = Some text
          \<and> in_budget (readings tr)
      | Inl e \<Rightarrow>
          (e = timeout_exc \<and> \<not> py_in end_of_message (received tr) \<and> overdue (readings tr))
          \<or> (e = UnicodeDecodeError \<and> py_in end_of_message (received tr)
              \<and> utf8_decode (received tr) = None \<and> in_budget (readings tr))
          \<or> (e = UnicodeEncodeError \<and> utf8_encode (c @ [10]) = None
              \<and> list_all (\<lambda>ev. \<not> is_Wrote ev) tr)
          \<or> io_failure d com e)"

text \<open>
  A connection \<open>com\<close> has been kept after a probe when the history ends with the opening
  of \<open>com\<close> on one of the ports, followed by what the finaliser of the connection held
  before closes, and then by an exchange on \<open>com\<close>: \<open>version\<close> and a newline were written
  to \<open>com\<close>, and what was received after that contains the end-of-message marker and
  decodes to a text that does not contain \<open>error\<close>.
\<close>

definition kept_after_probe :: "pystr list \<Rightarrow> nat \<Rightarrow> event list \<Rightarrow> bool" where
  "kept_after_probe ports com evs =
     (\<exists>pre port fin tr reply.
        evs = pre @ Opened com port # fin @ tr \<and> list_all is_Closed fin
        \<and> list_all plain tr \<and> port \<in> set ports
        \<and> Wrote com ''version\<newline>'' \<in> set tr
        \<and> py_in end_of_message (received tr)
        \<and> utf8_decode (received tr) = Some reply
        \<and> \<not> py_in (ascii ''error'') reply)"

section \<open>A simulated bench\<close>

text \<open>
  A concrete environment on which the program can be run: a clock that advances only in
  \<open>time.sleep\<close>, by the time asked for, and a set of device nodes. A node is missing
  (opening it raises \<open>SerialException\<close>), faulty (opening it raises an \<open>OSError\<close> that
  pyserial does not wrap), dead (it opens, every write raises \<open>SerialException\<close>), or a
  device that answers each write with a fixed reply after a fixed delay.
\<close>

datatype node = Missing | Faulty | Dead | Device bytes real

record bench =
  clock :: real
  conns :: "(pystr \<times> bytes) list"
  inflight :: "(real \<times> nat \<times> bytes) list"

definition arrive :: "real \<Rightarrow> (pystr \<times> bytes) list \<Rightarrow> real \<times> nat \<times> bytes \<Rightarrow> (pystr \<times> bytes) list" where
  "arrive t cs a =
     (case a of (due, com, bs) \<Rightarrow>
        if due \<le> t \<and> com < length cs then cs[com := (fst (cs ! com), snd (cs ! com) @ bs)]
        else cs)"

definition deliver :: "bench \<Rightarrow> bench" where
  "deliver w =
     w\<lparr>conns := foldl (arrive (clock w)) (conns w) (inflight w),
       inflight := filter (\<lambda>a. clock w < fst a) (inflight w)\<rparr>"

definition bench_open ::
    "(pystr \<Rightarrow> node) \<Rightarrow> pystr \<Rightarrow> settings \<Rightarrow> bench \<Rightarrow> (io_error + nat) \<times> bench" where
  "bench_open nodes port cfg w =
     (case nodes port of
        Missing \<Rightarrow> (Inl (SerialError ''could not open port''), w)
      | Faulty \<Rightarrow> (Inl (OsError ''Input/output error''), w)
      | _ \<Rightarrow> (Inr (length (conns w)), w\<lparr>conns := conns w @ [(port, [])]\<rparr>))"

definition bench_inWaiting :: "nat \<Rightarrow> bench \<Rightarrow> (io_error + nat) \<times> bench" where
  "bench_inWaiting com w =
     (if com < length (conns w)
      then (Inr (length (snd (conns (deliver w) ! com))), deliver w)
      else (Inl (SerialError ''port not open''), w))"

definition bench_read :: "nat \<Rightarrow> nat \<Rightarrow> bench \<Rightarrow> (io_error + bytes) \<times> bench" where
  "bench_read com n w =
     (if com < length (conns w)
      then (case conns (deliver w) ! com of
              (port, buf) \<Rightarrow>
                (Inr (take n buf),
                 (deliver w)\<lparr>conns := (conns (deliver w))[com := (port, drop n buf)]\<rparr>))
      else (Inl (SerialError ''port not open''), w))"

definition bench_write ::
    "(pystr \<Rightarrow> node) \<Rightarrow> nat \<Rightarrow> bytes \<Rightarrow> bench \<Rightarrow> (io_error + unit) \<times> bench" where
  "bench_write nodes com bs w =
     (if com < length (conns w)
      then (case nodes (fst (conns w ! com)) of
              Device reply delay \<Rightarrow>
                (Inr (), w\<lparr>inflight := inflight w @ [(clock w + delay, com, reply)]\<rparr>)
            | _ \<Rightarrow> (Inl (SerialError ''write failed''), w))
      else (Inl (SerialError ''port not open''), w))"

text \<open>The bench reads a single decimal digit as a number and refuses everything else.\<close>

definition digit_int :: "pystr \<Rightarrow> int option" where
  "digit_int line =
     (case line of
        [c] \<Rightarrow> if 48 \<le> c \<and> c \<le> 57 then Some (int c - 48) else None
      | _ \<Rightarrow> None)"

definition bench_driver :: "pystr \<Rightarrow> pystr list \<Rightarrow> (pystr \<Rightarrow> node) \<Rightarrow> bench driver" where
  "bench_driver os paths nodes =
     \<lparr>ser_open = bench_open nodes,
      ser_close = (\<lambda>com w. (Inr (), w)),
      ser_inWaiting = bench_inWaiting,
      ser_read = bench_read,
      ser_write = bench_write nodes,
      time_sleep = (\<lambda>t w. w\<lparr>clock := clock w + t\<rparr>),
      time_time = (\<lambda>w. (clock w, w)),
      sys_platform = os,
      glob_glob = (\<lambda>pattern w. paths),
      int_of_str = digit_int\<rparr>"

definition bench0 :: bench where
  "bench0 = \<lparr>clock = 0, conns = [], inflight = []\<rparr>"

definition start :: "'w \<Rightarrow> pystr list \<Rightarrow> 'w state" where
  "start w keyboard = \<lparr>world = w, trace = [], stdin = keyboard, stdout = [], logcalls = []\<rparr>"

text \<open>
  The device nodes of the bench: the unit on \<open>/dev/ttyACM0\<close>; a unit whose version text
  mentions an error counter; another device that answers every line with \<open>hello\<close>; one
  that answers with bytes that are not UTF-8; a unit that takes 2.005 seconds to answer;
  a port with nothing attached; a dead port; a faulty port. Every other path is missing.
\<close>

definition lab :: "pystr \<Rightarrow> node" where
  "lab port =
     (if port = ascii ''/dev/ttyACM0'' then Device ''cpufw 1.0 4798\<newline>200 OK\<newline>\<newline>'' 0
      else if port = ascii ''/dev/ttyACM1'' then Device ''errors 0\<newline>200 OK\<newline>\<newline>'' 0
      else if port = ascii ''/dev/ttyUSB0'' then Device ''hello\<newline>\<newline>'' 0
      else if port = ascii ''/dev/ttyUSB1'' then Device [CHR 0xFF, CHR 0x0A, CHR 0x0A] 0
      else if port = ascii ''/dev/ttyUSB2'' then Device ''200 OK\<newline>\<newline>'' (401 / 200)
      else if port = ascii ''/dev/ttyS0'' then Device [] 0
      else if port = ascii ''/dev/ttyS1'' then Dead
      else if port = ascii ''/dev/ttyS2'' then Faulty
      else Missing)"

definition linux_bench :: "pystr list \<Rightarrow> bench driver" where
  "linux_bench paths = bench_driver (ascii ''linux'') paths lab"

text \<open>The state right after \<open>serial.Serial(port=port, baudrate=115200, ...)\<close> on a fresh bench.\<close>

definition opened :: "string \<Rightarrow> bench state" where
  "opened port =
     \<lparr>world = \<lparr>clock = 0, conns = [(ascii port, [])], inflight = []\<rparr>,
      trace = [Opened 0 (ascii port)], stdin = [], stdout = [], logcalls = []\<rparr>"

text \<open>
  The state after one exchange of \<open>version\<close> on a freshly opened port whose device
  answers at once: the reply is read in one piece after the first clock reading.
\<close>

definition after_version :: "string \<Rightarrow> bytes \<Rightarrow> bench state" where
  "after_version port reply =
     \<lparr>world = \<lparr>clock = 1 / 100, conns = [(ascii port, [])], inflight = []\<rparr>,
      trace = [Opened 0 (ascii port), Wrote 0 ''version\<newline>'', Clock 0, Read 0 reply],
      stdin = [], stdout = [], logcalls = []\<rparr>"

text \<open>The state after the write on a freshly opened dead port has raised.\<close>

definition after_failed_write :: "string \<Rightarrow> bench state" where
  "after_failed_write port =
     \<lparr>world = \<lparr>clock = 0, conns = [(ascii port, [])], inflight = []\<rparr>,
      trace = [Opened 0 (ascii port), Wrote 0 ''version\<newline>''],
      stdin = [], stdout = [], logcalls = []\<rparr>"

text \<open>
  The state after the operator chose port 0 and then port 1 of
  \<open>/dev/ttyACM1\<close>, \<open>/dev/ttyACM0\<close> in the selection loop.
\<close>

definition after_second_choice :: "bench state" where
  "after_second_choice =
     \<lparr>world = \<lparr>clock = 1 / 50,
                conns = [(ascii ''/dev/ttyACM1'', []), (ascii ''/dev/ttyACM0'', [])],
                inflight = []\<rparr>,
      trace = [Opened 0 (ascii ''/dev/ttyACM1''), Wrote 0 ''version\<newline>'', Clock 0,
               Read 0 ''errors 0\<newline>200 OK\<newline>\<newline>'',
               Opened 1 (ascii ''/dev/ttyACM0''), Closed 0,
               Wrote 1 ''version\<newline>'', Clock (1 / 100),
               Read 1 ''cpufw 1.0 4798\<newline>200 OK\<newline>\<newline>''],
      stdin = [],
      stdout = [ascii ''Enter port number to use: '',
                ascii ''The port seems not to be connected to the unit. Try another port.'',
                ascii ''Enter port number to use: ''],
      logcalls = []\<rparr>"

text \<open>
  The state after the operator chose port 0 and then port 1 of \<open>/dev/ttyS1\<close>,
  \<open>/dev/ttyUSB0\<close> in the selection loop: the write on the dead port raised.
\<close>

definition after_dead_port :: "bench state" where
  "after_dead_port =
     \<lparr>world = \<lparr>clock = 1 / 100,
                conns = [(ascii ''/dev/ttyS1'', []), (ascii ''/dev/ttyUSB0'', [])],
                inflight = []\<rparr>,
      trace = [Opened 0 (ascii ''/dev/ttyS1''), Wrote 0 ''version\<newline>'',
               Opened 1 (ascii ''/dev/ttyUSB0''), Closed 0,
               Wrote 1 ''version\<newline>'', Clock 0, Read 1 ''hello\<newline>\<newline>''],
      stdin = [],
      stdout = [ascii ''Enter port number to use: '',
                ascii ''The port seems not to be connected to the unit. Try another port.'',
                ascii ''Enter port number to use: ''],
      logcalls = [Log ''ser_cmd'' ERROR (Exc (SerialException ''write failed''))]\<rparr>"

text \<open>
  The state after the port selection on the same two ports, the operator having chosen
  port 1.
\<close>

definition after_listing :: "bench state" where
  "after_listing =
     (after_version ''/dev/ttyACM0'' ''cpufw 1.0 4798\<newline>200 OK\<newline>\<newline>'')
       \<lparr>stdout := [ascii ''Available port(s):'', ascii ''Port 0: /dev/ttyACM1'',
                   ascii ''Port 1: /dev/ttyACM0'', ascii ''Enter port number to use: ''],
        logcalls := [Log ''ser_cmd'' INFO (Msg ''Which port? Give number.''),
                     Log ''ser_cmd'' INFO (Text (ascii ''0: /dev/ttyACM1'')),
                     Log ''ser_cmd'' INFO (Text (ascii ''1: /dev/ttyACM0''))]\<rparr>"

text \<open>
  A device that never stops talking: whenever the program looks, one byte is waiting.
\<close>

definition chatty :: "real driver" where
  "chatty =
     \<lparr>ser_open = (\<lambda>port cfg w. (Inr 0, w)),
      ser_close = (\<lambda>com w. (Inr (), w)),
      ser_inWaiting = (\<lambda>com w. (Inr 1, w)),
      ser_read = (\<lambda>com n w. (Inr ''.'', w)),
      ser_write = (\<lambda>com bs w. (Inr (), w)),
      time_sleep = (\<lambda>t w. w + t),
      time_time = (\<lambda>w. (w, w)),
      sys_platform = ascii ''linux'',
      glob_glob = (\<lambda>pattern w. []),
      int_of_str = (\<lambda>line. None)\<rparr>"


section \<open>Properties of the event history\<close>


lemma lift_io_trace: "lift_io f s = (r, s') \<Longrightarrow> trace s' = trace s"
  by (auto simp: lift_io_def split: prod.splits sum.splits)

lemma is_transport_raise_io: "is_transport (raise_io x)"
  by (cases x) simp_all

lemma io_failure_transport: "io_failure d com e \<Longrightarrow> is_transport e"
  by (auto simp: io_failure_def is_transport_raise_io)

lemma lift_io_Inl: "lift_io f s = (Inl e, s') \<Longrightarrow> \<exists>x. fst (f (world s)) = Inl x \<and> e = raise_io x"
  by (auto simp: lift_io_def split: prod.splits sum.splits)

lemma com_inWaiting_trace: "com_inWaiting d com s = (r, s') \<Longrightarrow> trace s' = trace s"
  by (simp add: com_inWaiting_def lift_io_trace)

lemma com_inWaiting_Inl: "com_inWaiting d com s = (Inl e, s') \<Longrightarrow> io_failure d com e"
  unfolding com_inWaiting_def io_failure_def by (blast dest: lift_io_Inl)

lemma com_read_Inl: "com_read d com n s = (Inl e, s') \<Longrightarrow> io_failure d com e \<and> trace s' = trace s"
proof -
  assume "com_read d com n s = (Inl e, s')"
  then have *: "lift_io (ser_read d com n) s = (Inl e, s')"
    by (auto simp: com_read_def split: prod.splits sum.splits)
  from lift_io_Inl[OF *] have "io_failure d com e"
    unfolding io_failure_def by blast
  with lift_io_trace[OF *] show ?thesis by simp
qed

lemma com_read_Inr: "com_read d com n s = (Inr bs, s') \<Longrightarrow> trace s' = trace s @ [Read com bs]"
  by (auto simp: com_read_def split: prod.splits sum.splits dest: lift_io_trace)

lemma sleep_trace: "trace (sleep d t s) = trace s"
  by (simp add: sleep_def)

lemma now_trace: "now d s = (t, s') \<Longrightarrow> trace s' = trace s @ [Clock t]"
  by (auto simp: now_def split: prod.splits)

lemma read_waiting_sound:
  assumes "read_waiting d com buf s = Some y"
  shows "\<exists>chunks. trace (snd y) = trace s @ map (Read com) chunks
           \<and> (case fst y of Inl e \<Rightarrow> io_failure d com e | Inr r \<Rightarrow> r = buf @ concat chunks)"
proof (rule read_waiting.raw_induct[OF _ assms], goal_cases)
  case (1 rw d com buf s y)
  obtain a s1 where first: "com_inWaiting d com s = (a, s1)"
    by (cases "com_inWaiting d com s")
  obtain b s2 where second: "com_inWaiting d com s1 = (b, s2)"
    by (cases "com_inWaiting d com s1")
  have t1: "trace s1 = trace s"
    using first by (rule com_inWaiting_trace)
  have t2: "trace s2 = trace s"
    using com_inWaiting_trace[OF second] t1 by simp
  show ?case
  proof (cases a)
    case (Inl e)
    with 1(2) first have "y = (Inl e, s1)" by simp
    with first Inl t1 show ?thesis
      by (auto dest: com_inWaiting_Inl intro: exI[of _ "[]"])
  next
    case n: (Inr n)
    show ?thesis
    proof (cases "n = 0")
      case True
      with 1(2) first n have "y = (Inr buf, s1)" by simp
      with t1 show ?thesis by (auto intro: exI[of _ "[]"])
    next
      case False
      note nz = this
      show ?thesis
      proof (cases b)
        case (Inl e)
        with 1(2) first second n nz have "y = (Inl e, s2)" by simp
        with second Inl t2 show ?thesis
          by (auto dest: com_inWaiting_Inl intro: exI[of _ "[]"])
      next
        case m: (Inr m)
        obtain c s3 where third: "com_read d com m s2 = (c, s3)"
          by (cases "com_read d com m s2")
        show ?thesis
        proof (cases c)
          case (Inl e)
          with 1(2) first second third n nz m have "y = (Inl e, s3)" by simp
          with third Inl t2 show ?thesis
            by (auto dest: com_read_Inl intro: exI[of _ "[]"])
        next
          case (Inr bs)
          with 1(2) first second third n nz m
          have "rw d com (buf @ bs) (sleep d (1 / 100) s3) = Some y" by simp
          from 1(1)[OF this] obtain chunks where
            c: "trace (snd y) = trace (sleep d (1 / 100) s3) @ map (Read com) chunks"
               "case fst y of Inl e \<Rightarrow> io_failure d com e | Inr r \<Rightarrow> r = (buf @ bs) @ concat chunks"
            by blast
          have "trace s3 = trace s @ [Read com bs]"
            using third Inr t2 by (auto dest: com_read_Inr)
          with c show ?thesis
            by (intro exI[of _ "bs # chunks"]) (auto simp: sleep_trace split: sum.splits)
        qed
      qed
    qed
  qed
qed


lemma reads_append: "reads (xs @ ys) = reads xs @ reads ys"
  by (induction xs rule: reads.induct) simp_all

lemma clocks_append: "clocks (xs @ ys) = clocks xs @ clocks ys"
  by (induction xs rule: clocks.induct) simp_all

lemma reads_map_Read: "reads (map (Read com) chunks) = concat chunks"
  by (induction chunks) simp_all

lemma clocks_map_Read: "clocks (map (Read com) chunks) = []"
  by (induction chunks) simp_all

lemma calm_map_Read: "list_all calm (map (Read com) chunks)"
  by (induction chunks) simp_all

lemma poll_sound:
  assumes "poll d com t0 r s = Some y"
  shows "\<exists>evs. trace (snd y) = trace s @ evs \<and> list_all calm evs
           \<and> (case fst y of
                 Inr r1 \<Rightarrow> r1 = r @ reads evs \<and> py_in end_of_message r1
                           \<and> list_all (\<lambda>t. t - t0 \<le> 2) (clocks evs)
               | Inl e \<Rightarrow> (e = timeout_exc \<and> \<not> py_in end_of_message (r @ reads evs)
                            \<and> clocks evs \<noteq> [] \<and> 2 < last (clocks evs) - t0)
                          \<or> io_failure d com e)"
proof (rule poll.raw_induct[OF _ assms], goal_cases)
  case (1 pl d com t0 r s y)
  from 1(2) obtain a s1 where rw: "read_waiting d com r s = Some (a, s1)"
    by (cases "read_waiting d com r s") auto
  from read_waiting_sound[OF rw] obtain chunks where
    tr1: "trace s1 = trace s @ map (Read com) chunks" and
    a: "case a of Inl e \<Rightarrow> io_failure d com e | Inr r1 \<Rightarrow> r1 = r @ concat chunks"
    by auto
  let ?evs1 = "map (Read com) chunks"
  show ?case
  proof (cases a)
    case (Inl e)
    with 1(2) rw have "y = (Inl e, s1)" by simp
    with tr1 a Inl show ?thesis
      by (intro exI[of _ ?evs1]) (simp add: calm_map_Read)
  next
    case (Inr r1)
    with a have r1: "r1 = r @ concat chunks" by simp
    show ?thesis
    proof (cases "py_in end_of_message r1")
      case True
      with 1(2) rw Inr have "y = (Inr r1, s1)" by simp
      with tr1 r1 True show ?thesis
        by (intro exI[of _ ?evs1]) (simp add: calm_map_Read reads_map_Read clocks_map_Read)
    next
      case False
      obtain t s2 where nw: "now d s1 = (t, s2)" by (cases "now d s1")
      have tr2: "trace s2 = trace s @ ?evs1 @ [Clock t]"
        using now_trace[OF nw] tr1 by simp
      show ?thesis
      proof (cases "2 < t - t0")
        case True
        with 1(2) rw Inr False nw have "y = (Inl timeout_exc, s2)" by simp
        with tr2 r1 False True show ?thesis
          by (intro exI[of _ "?evs1 @ [Clock t]"])
             (simp add: calm_map_Read reads_map_Read clocks_map_Read reads_append clocks_append)
      next
        case late: False
        with 1(2) rw Inr False nw
        have "pl d com t0 r1 (sleep d (1 / 100) s2) = Some y" by simp
        from 1(1)[OF this] obtain evs where
          e1: "trace (snd y) = trace (sleep d (1 / 100) s2) @ evs" and
          e2: "list_all calm evs" and
          e3: "case fst y of
                 Inr r2 \<Rightarrow> r2 = r1 @ reads evs \<and> py_in end_of_message r2
                           \<and> list_all (\<lambda>t. t - t0 \<le> 2) (clocks evs)
               | Inl e \<Rightarrow> (e = timeout_exc \<and> \<not> py_in end_of_message (r1 @ reads evs)
                            \<and> clocks evs \<noteq> [] \<and> 2 < last (clocks evs) - t0)
                          \<or> io_failure d com e"
          by blast
        show ?thesis
        proof (intro exI[of _ "?evs1 @ Clock t # evs"] conjI)
          show "trace (snd y) = trace s @ ?evs1 @ Clock t # evs"
            using e1 tr2 by (simp add: sleep_trace)
          show "list_all calm (?evs1 @ Clock t # evs)"
            using e2 by (simp add: calm_map_Read)
          show "case fst y of
                 Inr r2 \<Rightarrow> r2 = r @ reads (?evs1 @ Clock t # evs) \<and> py_in end_of_message r2
                           \<and> list_all (\<lambda>t. t - t0 \<le> 2) (clocks (?evs1 @ Clock t # evs))
               | Inl e \<Rightarrow> (e = timeout_exc \<and> \<not> py_in end_of_message (r @ reads (?evs1 @ Clock t # evs))
                            \<and> clocks (?evs1 @ Clock t # evs) \<noteq> []
                            \<and> 2 < last (clocks (?evs1 @ Clock t # evs)) - t0)
                          \<or> io_failure d com e"
            using e3 r1 late
            by (auto simp: reads_append clocks_append reads_map_Read clocks_map_Read
                     split: sum.splits)
        qed
      qed
    qed
  qed
qed


lemma calm_plain: "list_all calm evs \<Longrightarrow> list_all plain evs"
  by (induction evs rule: reads.induct) simp_all

lemma calm_no_Wrote: "list_all calm evs \<Longrightarrow> e \<in> set evs \<Longrightarrow> \<not> is_Wrote e"
  by (induction evs rule: reads.induct) auto

lemma com_write_trace: "com_write d com bs s = (r, s') \<Longrightarrow> trace s' = trace s @ [Wrote com bs]"
  by (auto simp: com_write_def dest: lift_io_trace)

lemma com_write_Inl: "com_write d com bs s = (Inl e, s') \<Longrightarrow> io_failure d com e"
  unfolding com_write_def io_failure_def by (blast dest: lift_io_Inl)

lemma after_write_flush: "after_write (map (Read com) junk @ Wrote com' bs # rest) = rest"
  by (induction junk) (simp_all add: after_write_def)

lemma request_bap_sound:
  assumes "request_bap d com (Str c) s = Some (res, s')"
  shows "\<exists>tr. trace s' = trace s @ tr \<and> list_all plain tr \<and> bap_outcome d c com tr res"
proof -
  from assms obtain a s1 where fl: "read_waiting d com [] s = Some (a, s1)"
    by (cases "read_waiting d com [] s") (auto simp: request_bap_def)
  from read_waiting_sound[OF fl] obtain junk where
    tr1: "trace s1 = trace s @ map (Read com) junk" and
    a: "case a of Inl e \<Rightarrow> io_failure d com e | Inr r1 \<Rightarrow> r1 = [] @ concat junk"
    by auto
  let ?fl = "map (Read com) junk"
  have pfl: "list_all plain ?fl" by (simp add: calm_plain calm_map_Read)
  have nwfl: "list_all (\<lambda>ev. \<not> is_Wrote ev) ?fl" by (induction junk) simp_all
  show ?thesis
  proof (cases a)
    case (Inl e)
    with assms fl have "res = Inl e" "s' = s1" by (simp_all add: request_bap_def)
    with tr1 a Inl pfl show ?thesis
      by (intro exI[of _ ?fl]) (simp add: bap_outcome_def)
  next
    case (Inr j)
    show ?thesis
    proof (cases "utf8_encode (c @ [10])")
      case None
      with assms fl Inr have "res = Inl UnicodeEncodeError" "s' = s1"
        by (simp_all add: request_bap_def)
      with tr1 None pfl nwfl show ?thesis
        by (intro exI[of _ ?fl]) (simp add: bap_outcome_def)
    next
      case (Some bs)
      obtain w s2 where wr: "com_write d com bs s1 = (w, s2)" by (cases "com_write d com bs s1")
      have tr2: "trace s2 = trace s @ ?fl @ [Wrote com bs]"
        using com_write_trace[OF wr] tr1 by simp
      show ?thesis
      proof (cases w)
        case (Inl e)
        with assms fl Inr Some wr have "res = Inl e" "s' = s2" by (simp_all add: request_bap_def)
        moreover have "io_failure d com e" using wr Inl by (auto dest: com_write_Inl)
        ultimately show ?thesis using tr2 pfl
          by (intro exI[of _ "?fl @ [Wrote com bs]"]) (simp add: bap_outcome_def)
      next
        case u: (Inr u)
        obtain t0 s3 where nw: "now d s2 = (t0, s3)" by (cases "now d s2")
        from assms fl Inr Some wr u nw obtain x s4 where
          pl: "poll d com t0 [] s3 = Some (x, s4)"
          by (cases "poll d com t0 [] s3") (auto simp: request_bap_def read_phase_def)
        from poll_sound[OF pl] obtain evs where
          tr4: "trace s4 = trace s3 @ evs" and calm: "list_all calm evs" and
          x: "case x of
                 Inr r1 \<Rightarrow> r1 = [] @ reads evs \<and> py_in end_of_message r1
                           \<and> list_all (\<lambda>t. t - t0 \<le> 2) (clocks evs)
               | Inl e \<Rightarrow> (e = timeout_exc \<and> \<not> py_in end_of_message ([] @ reads evs)
                            \<and> clocks evs \<noteq> [] \<and> 2 < last (clocks evs) - t0)
                          \<or> io_failure d com e"
          by auto
        let ?tr = "?fl @ Wrote com bs # Clock t0 # evs"
        have tr: "trace s4 = trace s @ ?tr"
          using tr4 now_trace[OF nw] tr2 by simp
        have ptr: "list_all plain ?tr" using pfl calm_plain[OF calm] by simp
        have rec: "received ?tr = reads evs" "readings ?tr = t0 # clocks evs"
          by (simp_all add: received_def readings_def after_write_flush)
        have wrote: "Wrote com bs \<in> set ?tr" by simp
        show ?thesis
        proof (cases x)
          case (Inl e)
          with assms fl Inr Some wr u nw pl have "res = Inl e" "s' = s4"
            by (simp_all add: request_bap_def read_phase_def)
          with x Inl tr ptr show ?thesis
            by (intro exI[of _ ?tr]) (auto simp: bap_outcome_def rec overdue_def)
        next
          case r: (Inr r)
          with x have rr: "r = reads evs" "py_in end_of_message (reads evs)"
            "list_all (\<lambda>t. t - t0 \<le> 2) (clocks evs)" by auto
          show ?thesis
          proof (cases "utf8_decode r")
            case None
            with assms fl Inr Some wr u nw pl r have "res = Inl UnicodeDecodeError" "s' = s4"
              by (simp_all add: request_bap_def read_phase_def)
            with None rr tr ptr show ?thesis
              by (intro exI[of _ ?tr]) (simp add: bap_outcome_def rec in_budget_def)
          next
            case dec: (Some reply)
            with assms fl Inr Some wr u nw pl r have "res = Inr reply" "s' = s4"
              by (simp_all add: request_bap_def read_phase_def)
            with dec rr tr ptr Some wrote show ?thesis
              by (intro exI[of _ ?tr]) (simp add: bap_outcome_def rec in_budget_def)
          qed
        qed
      qed
    qed
  qed
qed

lemma bap_outcome_not_TypeError: "\<not> bap_outcome d c com tr (Inl (TypeError m))"
  by (auto simp: bap_outcome_def timeout_exc_def dest: io_failure_transport)

section \<open>Runs on the bench\<close>

text \<open>The equations that evaluate a run on the bench, and those that read a history.\<close>

lemmas bench_eval =
  linux_bench_def bench_driver_def lab_def opened_def start_def bench0_def ascii_def
  after_version_def after_failed_write_def
  bench_open_def bench_inWaiting_def bench_read_def bench_write_def deliver_def arrive_def
  digit_int_def
  serial_Serial_def lift_io_def com_inWaiting_def com_read_def com_write_def com_close_def
  now_def sleep_def log_call_def print_def input_line_def
  read_waiting.simps poll.simps read_phase_def request_bap_def send_def send_handler_def
  utf8_encode_def utf8_decode_def cont_def end_of_message_def timeout_exc_def
  char_of_def bit_Suc_0_iff


lemma new_events_eq: "trace s' = trace s @ tr \<Longrightarrow> new_events s s' = tr"
  by (simp add: new_events_def)


lemma request_bap_events:
  assumes "request_bap d com (Str c) s = Some (res, s')"
  shows "bap_outcome d c com (new_events s s') res \<and> list_all plain (new_events s s')"
  using request_bap_sound[OF assms] by (auto simp: new_events_eq)




section \<open>When request_bap ends\<close>
















text \<open>
  With the device that never stops talking the very first loop of \<open>request_bap\<close>, the
  one that discards stale input, never ends: the call neither returns nor raises.
\<close>

lemma chatty_read_waiting:
  assumes "read_waiting d com buf s = Some y"
  shows "d \<noteq> chatty"
proof (rule read_waiting.raw_induct[OF _ assms], goal_cases)
  case (1 rw d com buf s y)
  show ?case
  proof
    assume d: "d = chatty"
    from 1(2) obtain bs s3 where "rw d com (buf @ bs) (sleep d (1 / 100) s3) = Some y"
      unfolding d
      by (auto simp: chatty_def com_inWaiting_def com_read_def lift_io_def
               split: prod.splits sum.splits if_splits)
    from 1(1)[OF this] d show False by simp
  qed
qed

lemma request_bap_need_not_end:
  "request_bap chatty com (Str c) s = None"
proof (cases "read_waiting chatty com [] s")
  case None
  then show ?thesis by (simp add: request_bap_def)
next
  case (Some y)
  from chatty_read_waiting[OF this] show ?thesis by simp
qed

section \<open>The outcomes of request_bap\<close>





lemma timeout_not_transport: "\<not> is_transport timeout_exc"
  by (simp add: timeout_exc_def)

lemma request_bap_raises_Exception:
  assumes "request_bap d com cmd s = Some (Inl e, s')"
  shows "is_Exception e"
proof (cases cmd)
  case (Str c)
  with assms have "bap_outcome d c com (new_events s s') (Inl e)"
    using request_bap_events by blast
  then show ?thesis
    by (cases e) (auto simp: bap_outcome_def timeout_exc_def dest: io_failure_transport)
qed (use assms in \<open>auto simp: request_bap_def\<close>)

section \<open>The two kinds of failure of an exchange\<close>



section \<open>A frame that is not UTF-8\<close>




section \<open>send and its sentinel\<close>




section \<open>The type check of request_bap\<close>

text \<open>
  Claim C6. A command that is not a \<open>str\<close> makes \<open>request_bap\<close> raise
  \<open>TypeError('cmd must be str')\<close> with the state as it was: nothing has been read from
  or written to the connection, no event has been recorded. For a \<open>str\<close> command no
  \<open>TypeError\<close> is raised, whatever the connection does.
\<close>

theorem request_bap_type_check:
  "((\<forall>c. cmd \<noteq> Str c) \<longrightarrow>
      request_bap d com cmd s = Some (Inl (TypeError ''cmd must be str''), s))
   \<and> (\<forall>c m s'. request_bap d com (Str c) s \<noteq> Some (Inl (TypeError m), s'))"
proof (intro conjI impI allI)
  assume "\<forall>c. cmd \<noteq> Str c"
  then show "request_bap d com cmd s = Some (Inl (TypeError ''cmd must be str''), s)"
    by (cases cmd) (simp_all add: request_bap_def)
next
  fix c m s'
  show "request_bap d com (Str c) s \<noteq> Some (Inl (TypeError m), s')"
    using request_bap_sound[of d com c s "Inl (TypeError m)" s'] bap_outcome_not_TypeError
    by blast
qed

theorem request_bap_type_check_witness:
  "(\<forall>c. Bytes ''version'' \<noteq> Str c)
   \<and> request_bap (bench_driver (ascii ''linux'') [] (\<lambda>p. Device [] 0)) 0 (Bytes ''version'')
        (start bench0 [])
      = Some (Inl (TypeError ''cmd must be str''), start bench0 [])
   \<and> trace (start bench0 []) = []"
  using request_bap_type_check[of "Bytes ''version''"
          "bench_driver (ascii ''linux'') [] (\<lambda>p. Device [] 0)" 0 "start bench0 []"]
  by (simp add: start_def)

section \<open>Discovery on an unsupported platform\<close>

lemma emitted_append:
  "emitted base lv (xs @ ys) = emitted base lv xs @ emitted base (levels_after lv xs) ys"
proof (induction xs arbitrary: lv)
  case Nil
  show ?case by simp
next
  case (Cons c cs)
  then show ?case by (cases c) (simp_all add: fun_upd_def)
qed

text \<open>
  Claim C7, as amended. When \<open>sys.platform\<close> starts with neither \<open>win\<close> nor \<open>linux\<close>,
  \<open>get_ports\<close> on a fresh \<open>SerialPorts\<close> returns the empty list and raises nothing; no
  port is opened and the state changes only by the calls to the logger \<open>scan_ports\<close>.
  The last of them is \<open>logger.error('Unsupported OS')\<close>, made after \<open>scan_ports\<close> has set
  the level of that logger to \<open>CRITICAL\<close>: the call is dropped, and so is the \<open>info\<close>
  before it, whatever the level of the root logger and whatever was logged before.
  Nothing is reported.
\<close>

theorem get_ports_unsupported_platform_unreported:
  assumes "\<not> startswith (sys_platform d) (ascii ''win'')"
      and "\<not> startswith (sys_platform d) (ascii ''linux'')"
  shows "get_ports d init_SerialPorts s =
           ((Inr [], init_SerialPorts),
            s\<lparr>logcalls := logcalls s @
                 [SetLevel ''scan_ports'' CRITICAL,
                  Log ''scan_ports'' INFO (Msg ''Starting...''),
                  Log ''scan_ports'' ERROR (Msg ''Unsupported OS'')]\<rparr>)
       \<and> reported base
           (logcalls s @
              [SetLevel ''scan_ports'' CRITICAL,
               Log ''scan_ports'' INFO (Msg ''Starting...''),
               Log ''scan_ports'' ERROR (Msg ''Unsupported OS'')])
         = reported base (logcalls s)"
  using assms
  by (simp add: get_ports_def scan_ports_def log_call_def init_SerialPorts_def
        reported_def emitted_append)

theorem get_ports_unsupported_platform_unreported_witness:
  "\<not> startswith (ascii ''darwin'') (ascii ''win'')
   \<and> \<not> startswith (ascii ''darwin'') (ascii ''linux'')
   \<and> get_ports (bench_driver (ascii ''darwin'') [ascii ''/dev/ttyS0''] (\<lambda>p. Device [] 0))
        init_SerialPorts (start bench0 [])
     = ((Inr [], \<lparr>self_ports = []\<rparr>),
        \<lparr>world = bench0, trace = [], stdin = [], stdout = [],
         logcalls = [SetLevel ''scan_ports'' CRITICAL,
                     Log ''scan_ports'' INFO (Msg ''Starting...''),
                     Log ''scan_ports'' ERROR (Msg ''Unsupported OS'')]\<rparr>)
   \<and> reported WARNING
        [SetLevel ''scan_ports'' CRITICAL,
         Log ''scan_ports'' INFO (Msg ''Starting...''),
         Log ''scan_ports'' ERROR (Msg ''Unsupported OS'')] = reported WARNING []"
  using get_ports_unsupported_platform_unreported[of
          "bench_driver (ascii ''darwin'') [ascii ''/dev/ttyS0''] (\<lambda>p. Device [] 0)"
          "start bench0 []" WARNING]
  by (simp add: bench_driver_def ascii_def init_SerialPorts_def start_def)

text \<open>
  Claim C7 as stated fails on the bench: on \<open>darwin\<close>, with the root logger at its most
  verbose level, \<open>get_ports\<close> returns the empty list and no record passes the logger;
  nothing is printed either.
\<close>

theorem get_ports_unsupported_platform_silent:
  "reported DEBUG
     (logcalls (snd (get_ports
        (bench_driver (ascii ''darwin'') [ascii ''/dev/ttyS0''] (\<lambda>p. Device [] 0))
        init_SerialPorts (start bench0 [])))) = []
   \<and> stdout (snd (get_ports
        (bench_driver (ascii ''darwin'') [ascii ''/dev/ttyS0''] (\<lambda>p. Device [] 0))
        init_SerialPorts (start bench0 []))) = []"
  by (simp add: get_ports_def scan_ports_def log_call_def init_SerialPorts_def
        reported_def bench_driver_def ascii_def start_def)

section \<open>Discovery\<close>










section \<open>The port selection\<close>

lemma send_cases:
  assumes "send d com cmd s = Some (x, s3)"
  shows "(\<exists>reply. x = Inr reply \<and> request_bap d com cmd s = Some (Inr reply, s3))
       \<or> (\<exists>e s2. x = Inr (ascii ''error'') \<and> request_bap d com cmd s = Some (Inl e, s2)
                  \<and> s3 = log_call (Log ''ser_cmd'' ERROR (Exc e)) s2)"
proof (cases "request_bap d com cmd s")
  case None
  with assms show ?thesis by (simp add: send_def send_handler_def)
next
  case (Some p)
  obtain r s2 where p: "p = (r, s2)" by (cases p)
  show ?thesis
  proof (cases r)
    case (Inl e)
    with Some p have "is_Exception e" by (auto dest: request_bap_raises_Exception)
    with assms Some p Inl show ?thesis by (auto simp: send_def send_handler_def)
  next
    case (Inr reply)
    with assms Some p show ?thesis by (auto simp: send_def send_handler_def)
  qed
qed

lemma error_in_error: "py_in (ascii ''error'') (ascii ''error'')"
  by (simp add: ascii_def)

lemma encode_version: "utf8_encode (ascii ''version'' @ [10]) = Some ''version\<newline>''"
  by (simp add: utf8_encode_def ascii_def char_of_def bit_Suc_0_iff)

lemma py_index_mem: "py_index xs i = Some x \<Longrightarrow> x \<in> set xs"
  by (auto simp: py_index_def split: if_splits)

lemma input_line_trace: "input_line prompt s = (r, s') \<Longrightarrow> trace s' = trace s"
  by (auto simp: input_line_def print_def split: list.splits)

lemma serial_Serial_trace:
  "serial_Serial d port cfg s = (r, s') \<Longrightarrow>
     (case r of Inl e \<Rightarrow> trace s' = trace s | Inr com \<Rightarrow> trace s' = trace s @ [Opened com port])"
  by (auto simp: serial_Serial_def split: prod.splits sum.splits dest: lift_io_trace)

lemma print_trace: "trace (print line s) = trace s"
  by (simp add: print_def)

lemma log_call_trace: "trace (log_call c s) = trace s"
  by (simp add: log_call_def)

lemma kept_after_probe_prepend:
  "kept_after_probe ports com evs \<Longrightarrow> kept_after_probe ports com (xs @ evs)"
  unfolding kept_after_probe_def
  by (elim exE) (metis append.assoc)

lemma open_after_append: "open_after coms (xs @ ys) = open_after (open_after coms xs) ys"
  by (induction coms xs rule: open_after.induct) simp_all

lemma peak_open_ge: "length coms \<le> peak_open coms evs"
  by (induction coms evs rule: peak_open.induct) simp_all

lemma peak_open_append:
  "peak_open coms (xs @ ys) = max (peak_open coms xs) (peak_open (open_after coms xs) ys)"
  by (induction coms xs rule: peak_open.induct) (simp_all add: peak_open_ge max_absorb2)

lemma open_after_plain: "list_all plain tr \<Longrightarrow> open_after coms tr = coms"
  by (induction coms tr rule: open_after.induct) simp_all

lemma peak_open_plain: "list_all plain tr \<Longrightarrow> peak_open coms tr = length coms"
  by (induction coms tr rule: peak_open.induct) simp_all

lemma plain_no_Closed: "list_all plain tr \<Longrightarrow> Closed c \<notin> set tr"
  by (induction tr) auto

lemma finalise_trace: "trace (finalise d held s) = trace s @ map Closed (holding held)"
proof (cases held)
  case None
  then show ?thesis by (simp add: finalise_def holding_def)
next
  case (Some old)
  have "trace (snd (com_close d old s)) = trace s @ [Closed old]"
    using lift_io_trace[of "ser_close d old" "s\<lparr>trace := trace s @ [Closed old]\<rparr>"
            "fst (com_close d old s)" "snd (com_close d old s)"]
    by (simp add: com_close_def)
  with Some show ?thesis by (simp add: finalise_def holding_def)
qed

text \<open>
  The events of one turn of the loop that opens a port: the opening, the close by the
  finaliser of the connection held before, and the exchange.
\<close>

lemma turn_open_after:
  "list_all plain tr \<Longrightarrow>
     open_after (holding held) (Opened com port # map Closed (holding held) @ tr) = [com]"
  by (cases held) (simp_all add: holding_def open_after_plain)

lemma turn_peak_open:
  "list_all plain tr \<Longrightarrow>
     peak_open (holding held) (Opened com port # map Closed (holding held) @ tr) \<le> 2"
  by (cases held) (simp_all add: holding_def peak_open_plain)

lemma turn_closes:
  assumes "list_all plain tr"
      and "Opened com port # map Closed (holding held) @ tr = pre @ Closed c # post"
  shows "open_after (holding held) pre = [c, com]"
proof -
  from assms(2) obtain pre1 where
    pre: "pre = Opened com port # pre1" and
    rest: "map Closed (holding held) @ tr = pre1 @ Closed c # post"
    by (cases pre) auto
  have no: "tr \<noteq> xs @ Closed c # post" for xs
    using plain_no_Closed[OF assms(1), of c] by auto
  show ?thesis
  proof (cases held)
    case None
    with rest no show ?thesis by (simp add: holding_def)
  next
    case (Some old)
    with rest no pre show ?thesis
      by (cases pre1) (auto simp: holding_def)
  qed
qed

lemma split_at_event:
  assumes "xs @ ys = pre @ z # post"
  shows "(\<exists>m. xs = pre @ z # m) \<or> (\<exists>m. pre = xs @ m \<and> ys = m @ z # post)"
  using assms by (auto simp: append_eq_append_conv2 append_eq_Cons_conv)

lemma length_holding: "length (holding held) \<le> 1"
  by (cases held) (simp_all add: holding_def)

lemma choose_port_sound:
  assumes "choose_port d ports held s = Some y"
  shows "\<exists>evs. trace (snd y) = trace s @ evs
           \<and> peak_open (holding held) evs \<le> 2
           \<and> length (open_after (holding held) evs) \<le> 1
           \<and> (\<forall>pre c post. evs = pre @ Closed c # post
                 \<longrightarrow> (\<exists>com. open_after (holding held) pre = [c, com]))
           \<and> (\<forall>com. fst y = Inr com
                 \<longrightarrow> kept_after_probe ports com evs \<and> open_after (holding held) evs = [com])"
proof (rule choose_port.raw_induct[OF _ assms], goal_cases)
  case (1 cp d ports held s y)
  let ?msg = "ascii ''The port seems not to be connected to the unit. Try another port.''"
  let ?h = "holding held"
  obtain a s1 where inp: "input_line (ascii ''Enter port number to use: '') s = (a, s1)"
    by (cases "input_line (ascii ''Enter port number to use: '') s")
  have t1: "trace s1 = trace s" using inp by (rule input_line_trace)
  have stop: ?case if "y = (Inl e, s')" "trace s' = trace s" for e s'
    using that length_holding[of held] by (intro exI[of _ "[]"]) simp
  show ?case
  proof (cases a)
    case (Inl e)
    with 1(2) inp have "y = (Inl e, s1)" by simp
    then show ?thesis using t1 by (rule stop)
  next
    case line: (Inr port_num)
    show ?thesis
    proof (cases "int_of_str d port_num")
      case None
      with 1(2) inp line have "y = (Inl ValueError, s1)" by simp
      then show ?thesis using t1 by (rule stop)
    next
      case i: (Some i)
      show ?thesis
      proof (cases "py_index ports i")
        case None
        with 1(2) inp line i have "y = (Inl IndexError, s1)" by simp
        then show ?thesis using t1 by (rule stop)
      next
        case port: (Some port)
        obtain b s2 where op: "serial_Serial d port bap_settings s1 = (b, s2)"
          by (cases "serial_Serial d port bap_settings s1")
        show ?thesis
        proof (cases b)
          case (Inl e)
          with 1(2) inp line i port op have "y = (Inl e, s2)" by simp
          moreover have "trace s2 = trace s"
            using serial_Serial_trace[OF op] Inl t1 by simp
          ultimately show ?thesis by (rule stop)
        next
          case com: (Inr com)
          let ?sf = "finalise d held s2"
          have t2: "trace ?sf = trace s @ Opened com port # map Closed ?h"
            using serial_Serial_trace[OF op] com t1 by (simp add: finalise_trace)
          from 1(2) inp line i port op com
          obtain x s3 where sd: "send d com (Str (ascii ''version'')) ?sf = Some (x, s3)"
            by (cases "send d com (Str (ascii ''version'')) ?sf") auto
          from send_cases[OF sd] obtain r s2' where
            rb: "request_bap d com (Str (ascii ''version'')) ?sf = Some (r, s2')" and
            t3': "trace s3 = trace s2'" and
            x: "(\<exists>reply. x = Inr reply \<and> r = Inr reply) \<or> (x = Inr (ascii ''error'') \<and> (\<exists>e. r = Inl e))"
            by (auto simp: log_call_trace)
          from request_bap_sound[OF rb] obtain tr where
            tr: "trace s2' = trace ?sf @ tr" "list_all plain tr"
                "bap_outcome d (ascii ''version'') com tr r"
            by blast
          let ?turn = "Opened com port # map Closed ?h @ tr"
          have t3: "trace s3 = trace s @ ?turn"
            using t3' tr(1) t2 by simp
          have after: "open_after ?h ?turn = [com]"
            using tr(2) by (rule turn_open_after)
          have peak: "peak_open ?h ?turn \<le> 2"
            using tr(2) by (rule turn_peak_open)
          from x obtain resp where resp: "x = Inr resp" by auto
          show ?thesis
          proof (cases "py_in (ascii ''error'') resp")
            case True
            with 1(2) inp line i port op com sd resp
            have "cp d ports (Some com) (print ?msg s3) = Some y" by simp
            from 1(1)[OF this] obtain evs where
              e: "trace (snd y) = trace (print ?msg s3) @ evs"
                 "peak_open [com] evs \<le> 2"
                 "length (open_after [com] evs) \<le> 1"
                 "\<forall>pre c post. evs = pre @ Closed c # post
                    \<longrightarrow> (\<exists>com'. open_after [com] pre = [c, com'])"
                 "\<forall>c. fst y = Inr c \<longrightarrow> kept_after_probe ports c evs \<and> open_after [com] evs = [c]"
              unfolding holding_def by auto
            show ?thesis
            proof (intro exI[of _ "?turn @ evs"] conjI allI impI)
              show "trace (snd y) = trace s @ ?turn @ evs"
                using e(1) t3 by (simp add: print_trace)
              show "peak_open ?h (?turn @ evs) \<le> 2"
                using peak e(2) after by (simp only: peak_open_append)
              show "length (open_after ?h (?turn @ evs)) \<le> 1"
                using e(3) after by (simp only: open_after_append)
            next
              fix pre c post
              assume "?turn @ evs = pre @ Closed c # post"
              from split_at_event[OF this]
              show "\<exists>com'. open_after ?h pre = [c, com']"
              proof (elim disjE exE conjE)
                fix m assume "?turn = pre @ Closed c # m"
                from turn_closes[OF tr(2) this] show ?thesis by blast
              next
                fix m assume m: "pre = ?turn @ m" "evs = m @ Closed c # post"
                from e(4) m(2) obtain com' where "open_after [com] m = [c, com']" by blast
                with m(1) after show ?thesis by (simp only: open_after_append) simp
              qed
            next
              fix c assume "fst y = Inr c"
              with e(5) have k: "kept_after_probe ports c evs" "open_after [com] evs = [c]"
                by simp_all
              from k(1) show "kept_after_probe ports c (?turn @ evs)"
                by (rule kept_after_probe_prepend)
              from k(2) after show "open_after ?h (?turn @ evs) = [c]"
                by (simp only: open_after_append)
            qed
          next
            case False
            with 1(2) inp line i port op com sd resp have y: "y = (Inr com, s3)"
              by (simp split: if_splits)
            from False resp x have r: "r = Inr resp"
              using error_in_error by auto
            with tr(3) have out: "Wrote com ''version\<newline>'' \<in> set tr"
                "py_in end_of_message (received tr)" "utf8_decode (received tr) = Some resp"
              by (auto simp: bap_outcome_def encode_version)
            have kept: "kept_after_probe ports com ?turn"
              unfolding kept_after_probe_def
              using out tr(2) False py_index_mem[OF port]
              by (intro exI[of _ "[]"] exI[of _ port] exI[of _ "map Closed ?h"]
                        exI[of _ tr] exI[of _ resp])
                 (simp add: list_all_iff)
            show ?thesis
            proof (intro exI[of _ ?turn] conjI allI impI)
              show "trace (snd y) = trace s @ ?turn" using y t3 by simp
              show "peak_open ?h ?turn \<le> 2" by (rule peak)
              show "length (open_after ?h ?turn) \<le> 1" using after by simp
            next
              fix pre c post
              assume "?turn = pre @ Closed c # post"
              from turn_closes[OF tr(2) this] show "\<exists>com'. open_after ?h pre = [c, com']"
                by blast
            next
              fix c assume "fst y = Inr c"
              with y have "c = com" by simp
              with kept after show "kept_after_probe ports c ?turn" "open_after ?h ?turn = [c]"
                by simp_all
            qed
          qed
        qed
      qed
    qed
  qed
qed

lemma send_of_request_bap:
  assumes "request_bap d com cmd s = Some (r, s1)"
  shows "send d com cmd s =
           Some (case r of
                   Inl e \<Rightarrow> (Inr (ascii ''error''), log_call (Log ''ser_cmd'' ERROR (Exc e)) s1)
                 | Inr reply \<Rightarrow> (Inr reply, s1))"
proof (cases r)
  case (Inl e)
  with assms have "is_Exception e" by (auto dest: request_bap_raises_Exception)
  with assms Inl show ?thesis by (simp add: send_def send_handler_def)
next
  case (Inr reply)
  with assms show ?thesis by (simp add: send_def send_handler_def)
qed

lemmas select_eval =
  choose_port.simps select_port_def py_index_def bap_settings_def port_line_def info_line_def
  finalise_def

text \<open>
  Claim C2, as amended. One turn of the selection loop, once the operator's line has
  been read as the number of a port and that port has been opened as \<open>com\<close> (and the
  connection held before, if any, finalised): when the exchange of \<open>version\<close> returns a
  reply without \<open>error\<close> in it, the loop stops and \<open>com\<close> is kept; when the reply contains
  \<open>error\<close>, or the exchange raised (and \<open>send\<close> returned its sentinel), the message is
  printed and the loop asks again, now holding \<open>com\<close>. Whether the reply contains
  \<open>200 OK\<close> makes no difference.
\<close>

theorem choose_port_keeps_unless_error:
  assumes "input_line (ascii ''Enter port number to use: '') s = (Inr port_num, s1)"
      and "int_of_str d port_num = Some i"
      and "py_index ports i = Some port"
      and "serial_Serial d port bap_settings s1 = (Inr com, s2)"
      and "request_bap d com (Str (ascii ''version'')) (finalise d held s2) = Some (r, s3)"
  shows "choose_port d ports held s =
           (case r of
              Inr reply \<Rightarrow>
                if py_in (ascii ''error'') reply
                then choose_port d ports (Some com)
                       (print (ascii ''The port seems not to be connected to the unit. Try another port.'') s3)
                else Some (Inr com, s3)
            | Inl e \<Rightarrow>
                choose_port d ports (Some com)
                  (print (ascii ''The port seems not to be connected to the unit. Try another port.'')
                     (log_call (Log ''ser_cmd'' ERROR (Exc e)) s3)))"
proof (cases r)
  case (Inl e)
  with send_of_request_bap[OF assms(5)]
  have "send d com (Str (ascii ''version'')) (finalise d held s2)
          = Some (Inr (ascii ''error''), log_call (Log ''ser_cmd'' ERROR (Exc e)) s3)"
    by simp
  with assms(1-4) Inl error_in_error show ?thesis
    by (subst choose_port.simps) simp
next
  case (Inr reply)
  with send_of_request_bap[OF assms(5)]
  have "send d com (Str (ascii ''version'')) (finalise d held s2) = Some (Inr reply, s3)"
    by simp
  with assms(1-4) Inr show ?thesis
    by (subst choose_port.simps) simp
qed

theorem choose_port_keeps_unless_error_witness:
  "input_line (ascii ''Enter port number to use: '') (start bench0 [ascii ''1''])
     = (Inr (ascii ''1''), (start bench0 [])\<lparr>stdout := [ascii ''Enter port number to use: '']\<rparr>)
   \<and> int_of_str (linux_bench []) (ascii ''1'') = Some 1
   \<and> py_index [ascii ''/dev/ttyS0'', ascii ''/dev/ttyACM0''] 1 = Some (ascii ''/dev/ttyACM0'')
   \<and> serial_Serial (linux_bench []) (ascii ''/dev/ttyACM0'') bap_settings
        ((start bench0 [])\<lparr>stdout := [ascii ''Enter port number to use: '']\<rparr>)
     = (Inr 0, (opened ''/dev/ttyACM0'')\<lparr>stdout := [ascii ''Enter port number to use: '']\<rparr>)
   \<and> request_bap (linux_bench []) 0 (Str (ascii ''version''))
        (finalise (linux_bench []) None
           ((opened ''/dev/ttyACM0'')\<lparr>stdout := [ascii ''Enter port number to use: '']\<rparr>))
     = Some (Inr (ascii ''cpufw 1.0 4798\<newline>200 OK\<newline>\<newline>''),
             (after_version ''/dev/ttyACM0'' ''cpufw 1.0 4798\<newline>200 OK\<newline>\<newline>'')
               \<lparr>stdout := [ascii ''Enter port number to use: '']\<rparr>)
   \<and> choose_port (linux_bench []) [ascii ''/dev/ttyS0'', ascii ''/dev/ttyACM0''] None
        (start bench0 [ascii ''1''])
     = Some (Inr 0,
             (after_version ''/dev/ttyACM0'' ''cpufw 1.0 4798\<newline>200 OK\<newline>\<newline>'')
               \<lparr>stdout := [ascii ''Enter port number to use: '']\<rparr>)"
proof -
  have a: "input_line (ascii ''Enter port number to use: '') (start bench0 [ascii ''1''])
     = (Inr (ascii ''1''), (start bench0 [])\<lparr>stdout := [ascii ''Enter port number to use: '']\<rparr>)"
    by (simp add: bench_eval)
  have b: "int_of_str (linux_bench []) (ascii ''1'') = Some 1"
    by (simp add: bench_eval)
  have c: "py_index [ascii ''/dev/ttyS0'', ascii ''/dev/ttyACM0''] 1 = Some (ascii ''/dev/ttyACM0'')"
    by (simp add: py_index_def)
  have d: "serial_Serial (linux_bench []) (ascii ''/dev/ttyACM0'') bap_settings
        ((start bench0 [])\<lparr>stdout := [ascii ''Enter port number to use: '']\<rparr>)
     = (Inr 0, (opened ''/dev/ttyACM0'')\<lparr>stdout := [ascii ''Enter port number to use: '']\<rparr>)"
    by (simp add: bench_eval)
  have e: "request_bap (linux_bench []) 0 (Str (ascii ''version''))
        (finalise (linux_bench []) None
           ((opened ''/dev/ttyACM0'')\<lparr>stdout := [ascii ''Enter port number to use: '']\<rparr>))
     = Some (Inr (ascii ''cpufw 1.0 4798\<newline>200 OK\<newline>\<newline>''),
             (after_version ''/dev/ttyACM0'' ''cpufw 1.0 4798\<newline>200 OK\<newline>\<newline>'')
               \<lparr>stdout := [ascii ''Enter port number to use: '']\<rparr>)"
    by (simp add: bench_eval finalise_def)
  have f: "\<not> py_in (ascii ''error'') (ascii ''cpufw 1.0 4798\<newline>200 OK\<newline>\<newline>'')"
    by (simp add: ascii_def)
  show ?thesis
    using choose_port_keeps_unless_error[OF a b c d e] a b c d e f by simp
qed

text \<open>
  Claim C2 as stated fails on the bench: the device on \<open>/dev/ttyUSB0\<close> answers \<open>hello\<close>,
  which does not contain \<open>200 OK\<close>, and the loop stops and keeps its connection.
\<close>

theorem choose_port_keeps_without_marker:
  "choose_port (linux_bench []) [ascii ''/dev/ttyUSB0'', ascii ''/dev/ttyACM0''] None
     (start bench0 [ascii ''0''])
     = Some (Inr 0, (after_version ''/dev/ttyUSB0'' ''hello\<newline>\<newline>'')
                      \<lparr>stdout := [ascii ''Enter port number to use: '']\<rparr>)
   \<and> utf8_decode ''hello\<newline>\<newline>'' = Some (ascii ''hello\<newline>\<newline>'')
   \<and> \<not> py_in (ascii ''200 OK'') (ascii ''hello\<newline>\<newline>'')"
  by (simp add: bench_eval select_eval)

lemma fold_print_trace: "trace (fold (\<lambda>n. print (f n)) xs s) = trace s"
  by (induction xs arbitrary: s) (simp_all add: print_trace)

lemma fold_log_trace: "trace (fold (\<lambda>n. log_call (f n)) xs s) = trace s"
  by (induction xs arbitrary: s) (simp_all add: log_call_trace)

lemma choose_port_events:
  assumes "choose_port d ports held s = Some (res, s')"
  shows "\<forall>com. res = Inr com \<longrightarrow> kept_after_probe ports com (new_events s s')"
  using choose_port_sound[OF assms] by (auto simp: new_events_eq)

text \<open>
  Claim C3, as amended. When the port selection hands over a connection and there is
  more than one port, that connection is the last one opened, \<open>version\<close> has been written
  to it and a reply without \<open>error\<close> has been read from it. When there is one port, the
  connection handed over has only been opened: nothing was written to it or read from it.
\<close>

theorem select_port_handshake:
  assumes "select_port d ports s = Some (Inr com, s')"
  shows "(1 < length ports \<longrightarrow> kept_after_probe ports com (new_events s s'))
       \<and> (length ports \<le> 1 \<longrightarrow> (\<exists>port. ports = [port] \<and> new_events s s' = [Opened com port]))"
proof (cases "1 < length ports")
  case True
  let ?s3 = "fold (\<lambda>i. log_call (info_line ports i)) [0 ..< length ports]
               (log_call (Log ''ser_cmd'' INFO (Msg ''Which port? Give number.''))
                  (fold (\<lambda>n. print (port_line ports n)) [0 ..< length ports]
                     (print (ascii ''Available port(s):'') s)))"
  from assms True have "choose_port d ports None ?s3 = Some (Inr com, s')"
    by (simp add: select_port_def Let_def)
  from choose_port_events[OF this] have "kept_after_probe ports com (new_events ?s3 s')"
    by simp
  moreover have "trace ?s3 = trace s"
    by (simp add: fold_log_trace fold_print_trace log_call_trace print_trace)
  ultimately show ?thesis using True by (simp add: new_events_def)
next
  case False
  let ?s1 = "fold (\<lambda>n. print (port_line ports n)) [0 ..< length ports]
               (print (ascii ''Available port(s):'') s)"
  have t: "trace ?s1 = trace s" by (simp add: fold_print_trace print_trace)
  from assms False obtain port where
    p: "py_index ports 0 = Some port" and
    o: "serial_Serial d port bap_settings ?s1 = (Inr com, s')"
    by (auto simp: select_port_def Let_def split: option.splits)
  from p False have "ports = [port]"
    by (cases ports) (auto simp: py_index_def split: if_splits)
  moreover have "trace s' = trace s @ [Opened com port]"
    using serial_Serial_trace[OF o] t by simp
  ultimately show ?thesis using False by (auto simp: new_events_eq)
qed

theorem select_port_handshake_witness:
  "select_port (linux_bench []) [ascii ''/dev/ttyACM1'', ascii ''/dev/ttyACM0'']
      (start bench0 [ascii ''1''])
     = Some (Inr 0, after_listing)
   \<and> 1 < length [ascii ''/dev/ttyACM1'', ascii ''/dev/ttyACM0'']
   \<and> kept_after_probe [ascii ''/dev/ttyACM1'', ascii ''/dev/ttyACM0''] 0
        (new_events (start bench0 [ascii ''1'']) after_listing)
   \<and> select_port (linux_bench []) [ascii ''/dev/ttyACM0''] (start bench0 [])
     = Some (Inr 0,
             (opened ''/dev/ttyACM0'')
               \<lparr>stdout := [ascii ''Available port(s):'', ascii ''Port 0: /dev/ttyACM0'']\<rparr>)
   \<and> new_events (start bench0 [])
        ((opened ''/dev/ttyACM0'')
           \<lparr>stdout := [ascii ''Available port(s):'', ascii ''Port 0: /dev/ttyACM0'']\<rparr>)
     = [Opened 0 (ascii ''/dev/ttyACM0'')]"
proof -
  have run: "select_port (linux_bench []) [ascii ''/dev/ttyACM1'', ascii ''/dev/ttyACM0'']
      (start bench0 [ascii ''1'']) = Some (Inr 0, after_listing)"
    by (simp add: bench_eval select_eval after_listing_def str_of_nat.simps)
  have single: "select_port (linux_bench []) [ascii ''/dev/ttyACM0''] (start bench0 [])
     = Some (Inr 0,
             (opened ''/dev/ttyACM0'')
               \<lparr>stdout := [ascii ''Available port(s):'', ascii ''Port 0: /dev/ttyACM0'']\<rparr>)"
    by (simp add: bench_eval select_eval str_of_nat.simps)
  from select_port_handshake[OF run] select_port_handshake[OF single] run single
  show ?thesis by simp
qed

text \<open>
  Claim C3 as stated fails on the bench: with \<open>/dev/ttyUSB0\<close> as the only port, which is
  not the unit, the selection hands over its connection after opening it, and the
  history shows no write and no read.
\<close>

theorem select_port_single_port_unprobed:
  "select_port (linux_bench []) [ascii ''/dev/ttyUSB0''] (start bench0 [])
     = Some (Inr 0,
             \<lparr>world = \<lparr>clock = 0, conns = [(ascii ''/dev/ttyUSB0'', [])], inflight = []\<rparr>,
              trace = [Opened 0 (ascii ''/dev/ttyUSB0'')],
              stdin = [],
              stdout = [ascii ''Available port(s):'', ascii ''Port 0: /dev/ttyUSB0''],
              logcalls = []\<rparr>)"
  by (simp add: bench_eval select_eval str_of_nat.simps)

text \<open>
  Claim C4, as amended. In every run of the selection loop that ends, at most two
  connections are open at any time and at most one when the loop ends: the one kept in
  \<open>com\<close>, when the loop ends with one. The loop does not close the connection of a
  rejected candidate before it opens the next port: a connection is closed only by the
  finaliser that runs when \<open>com\<close> is bound to the next connection, so that whenever one
  is closed, two are open: the one being closed and the one just opened.
\<close>

theorem choose_port_closes_after_next_open:
  assumes "choose_port d ports held s = Some (res, s')"
  shows "peak_open (holding held) (new_events s s') \<le> 2
       \<and> length (open_after (holding held) (new_events s s')) \<le> 1
       \<and> (\<forall>com. res = Inr com \<longrightarrow> open_after (holding held) (new_events s s') = [com])
       \<and> (\<forall>pre c post. new_events s s' = pre @ Closed c # post
             \<longrightarrow> (\<exists>com. open_after (holding held) pre = [c, com]))"
proof -
  from choose_port_sound[OF assms] obtain evs where
    evs: "trace s' = trace s @ evs"
         "peak_open (holding held) evs \<le> 2"
         "length (open_after (holding held) evs) \<le> 1"
         "\<forall>pre c post. evs = pre @ Closed c # post
            \<longrightarrow> (\<exists>com. open_after (holding held) pre = [c, com])"
         "\<forall>com. res = Inr com \<longrightarrow> open_after (holding held) evs = [com]"
    by auto
  from evs(1) have "new_events s s' = evs" by (rule new_events_eq)
  with evs(2-5) show ?thesis by simp
qed

theorem choose_port_closes_after_next_open_witness:
  "choose_port (linux_bench []) [ascii ''/dev/ttyS1'', ascii ''/dev/ttyUSB0''] None
      (start bench0 [ascii ''0'', ascii ''1''])
     = Some (Inr 1, after_dead_port)
   \<and> new_events (start bench0 [ascii ''0'', ascii ''1'']) after_dead_port
     = [Opened 0 (ascii ''/dev/ttyS1''), Wrote 0 ''version\<newline>'',
        Opened 1 (ascii ''/dev/ttyUSB0'')]
       @ Closed 0 # [Wrote 1 ''version\<newline>'', Clock 0, Read 1 ''hello\<newline>\<newline>'']
   \<and> open_after (holding None)
        [Opened 0 (ascii ''/dev/ttyS1''), Wrote 0 ''version\<newline>'',
         Opened 1 (ascii ''/dev/ttyUSB0'')] = [0, 1]
   \<and> open_after (holding None)
        (new_events (start bench0 [ascii ''0'', ascii ''1'']) after_dead_port) = [1]
   \<and> peak_open (holding None)
        (new_events (start bench0 [ascii ''0'', ascii ''1'']) after_dead_port) \<le> 2"
proof -
  have run: "choose_port (linux_bench []) [ascii ''/dev/ttyS1'', ascii ''/dev/ttyUSB0''] None
      (start bench0 [ascii ''0'', ascii ''1'']) = Some (Inr 1, after_dead_port)"
    by (simp add: bench_eval select_eval after_dead_port_def)
  have evs: "new_events (start bench0 [ascii ''0'', ascii ''1'']) after_dead_port
     = [Opened 0 (ascii ''/dev/ttyS1''), Wrote 0 ''version\<newline>'',
        Opened 1 (ascii ''/dev/ttyUSB0'')]
       @ Closed 0 # [Wrote 1 ''version\<newline>'', Clock 0, Read 1 ''hello\<newline>\<newline>'']"
    by (simp add: new_events_def start_def after_dead_port_def)
  from choose_port_closes_after_next_open[OF run] run evs show ?thesis
    by (simp add: holding_def)
qed

text \<open>
  Claim C4 as stated fails on the bench: the operator chooses \<open>/dev/ttyACM1\<close>, whose
  reply contains \<open>error\<close>, then \<open>/dev/ttyACM0\<close>. The second port is opened while the first
  connection is still open, so that two connections are open at once; the first is
  closed only after that.
\<close>

theorem choose_port_two_connections_open:
  "choose_port (linux_bench []) [ascii ''/dev/ttyACM1'', ascii ''/dev/ttyACM0''] None
      (start bench0 [ascii ''0'', ascii ''1''])
     = Some (Inr 1, after_second_choice)
   \<and> take 6 (trace after_second_choice)
     = [Opened 0 (ascii ''/dev/ttyACM1''), Wrote 0 ''version\<newline>'', Clock 0,
        Read 0 ''errors 0\<newline>200 OK\<newline>\<newline>'',
        Opened 1 (ascii ''/dev/ttyACM0''), Closed 0]
   \<and> open_after [] (take 5 (trace after_second_choice)) = [0, 1]
   \<and> peak_open [] (trace after_second_choice) = 2"
  by (simp add: bench_eval select_eval after_second_choice_def)

end
